theory Spec2Isabelle
  imports Main "HOL-Library.Sublist" "HOL-Library.Char_ord" "HOL-Library.List_Lexorder"
    "HOL-Library.Product_Lexorder"
begin

section \<open>Values exchanged with the remote model service\<close>

text \<open>
  A decoded JSON document, as \<^verbatim>\<open>response.json()\<close> hands it to the Python code.
  An object is kept as the list of its items; \<^verbatim>\<open>None\<close> is \<open>JNull\<close>. A number is kept
  as an integer: the code computes with none, it only finds that a number has no items.
\<close>

datatype json =
    JNull
  | JBool bool
  | JNum int
  | JStr string
  | JArr "json list"
  | JObj "(string \<times> json) list"

text \<open>
  Python exceptions. The body of the \<^verbatim>\<open>try\<close> block of \<^verbatim>\<open>query_model\<close> can raise
  the errors of the HTTP client, the decoding error of the body, and the errors of
  subscripting and attribute access on a decoded document; \<open>HTTPStatusError\<close> carries the
  status code of the response. \<open>HTTPException\<close> is the one the handlers of the API raise,
  with its status code and detail; \<open>OtherException\<close> is any other exception, with its
  message, that a collaborator may raise. All of them are subclasses of \<^verbatim>\<open>Exception\<close>.
  Cancellation of the running task from outside is not part of this model.
\<close>

datatype exn =
    HTTPStatusError nat
  | TimeoutException
  | ConnectError
  | RequestError
  | JSONDecodeError
  | KeyError
  | IndexError
  | TypeError
  | AttributeError
  | HTTPException nat string
  | OtherException string

record chat_message =
  msg_role :: string
  msg_content :: string

record http_request =
  url :: string
  headers :: "(string \<times> string) list"
  payload_model :: string
  payload_messages :: "chat_message list"

text \<open>
  What \<^verbatim>\<open>client.post\<close> does for a request: it raises, or it returns a response with a
  status code and a body, which decodes to a JSON document or does not.
\<close>

datatype http_outcome =
    PostRaises exn
  | PostResponds nat "json option"

type_synonym network = "http_request \<Rightarrow> http_outcome"

text \<open>The dictionary that a successful \<^verbatim>\<open>query_model\<close> returns.\<close>

record model_response =
  response_content :: json
  reasoning_details :: json

text \<open>The diagnostic lines printed by \<^verbatim>\<open>query_model\<close>, one constructor per print site.\<close>

datatype diag =
    DiagKeyNotSet string
  | DiagKeyPlaceholder string
  | DiagUnauthorized string string nat exn
  | DiagHttpStatus string nat exn
  | DiagError string exn

datatype effect =
    Print diag
  | HttpPost http_request

section \<open>Configuration\<close>

definition OPENROUTER_API_URL :: string where
  "OPENROUTER_API_URL = ''https://openrouter.ai/api/v1/chat/completions''"

definition PLACEHOLDER_KEY :: string where
  "PLACEHOLDER_KEY = ''sk-or-v1-your-api-key-here''"

text \<open>
  \<^verbatim>\<open>OPENROUTER_API_KEY\<close> is the result of \<^verbatim>\<open>os.getenv\<close>: \<^verbatim>\<open>None\<close> or a string.
  \<^verbatim>\<open>not OPENROUTER_API_KEY\<close> holds for \<^verbatim>\<open>None\<close> and for the empty string.
\<close>

definition key_not_set :: "string option \<Rightarrow> bool" where
  "key_not_set k = (case k of None \<Rightarrow> True | Some s \<Rightarrow> s = [])"

section \<open>The model gateway: \<^verbatim>\<open>query_model\<close>\<close>

definition then_do :: "exn + 'a \<Rightarrow> ('a \<Rightarrow> exn + 'b) \<Rightarrow> exn + 'b" where
  "then_do r f = (case r of Inl e \<Rightarrow> Inl e | Inr x \<Rightarrow> f x)"

text \<open>\<^verbatim>\<open>response.raise_for_status()\<close>: any status outside 2xx raises.\<close>

definition raise_for_status :: "nat \<Rightarrow> exn + unit" where
  "raise_for_status code =
     (if 200 \<le> code \<and> code < 300 then Inr () else Inl (HTTPStatusError code))"

text \<open>\<^verbatim>\<open>response.json()\<close>\<close>

definition response_json :: "json option \<Rightarrow> exn + json" where
  "response_json body = (case body of None \<Rightarrow> Inl JSONDecodeError | Some d \<Rightarrow> Inr d)"

text \<open>\<^verbatim>\<open>obj[k]\<close> for a string key \<open>k\<close>, on a decoded document.\<close>

fun subscript_key :: "json \<Rightarrow> string \<Rightarrow> exn + json" where
  "subscript_key (JObj kvs) k = (case map_of kvs k of None \<Rightarrow> Inl KeyError | Some v \<Rightarrow> Inr v)"
| "subscript_key _ k = Inl TypeError"

text \<open>
  \<^verbatim>\<open>obj[0]\<close>: the first element of a list, the first character of a string, no key of
  an object (the keys of a decoded object are strings).
\<close>

fun subscript_zero :: "json \<Rightarrow> exn + json" where
  "subscript_zero (JArr []) = Inl IndexError"
| "subscript_zero (JArr (x # xs)) = Inr x"
| "subscript_zero (JStr []) = Inl IndexError"
| "subscript_zero (JStr (c # cs)) = Inr (JStr [c])"
| "subscript_zero (JObj kvs) = Inl KeyError"
| "subscript_zero _ = Inl TypeError"

text \<open>\<^verbatim>\<open>obj.get(k)\<close>: only a dictionary has the method; a missing key gives \<^verbatim>\<open>None\<close>.\<close>

fun get_method :: "json \<Rightarrow> string \<Rightarrow> exn + json" where
  "get_method (JObj kvs) k = (case map_of kvs k of None \<Rightarrow> Inr JNull | Some v \<Rightarrow> Inr v)"
| "get_method _ k = Inl AttributeError"

text \<open>The statements of the \<^verbatim>\<open>try\<close> block after the request has been answered.\<close>

definition read_response :: "nat \<Rightarrow> json option \<Rightarrow> exn + model_response" where
  "read_response code body =
     then_do (raise_for_status code) (\<lambda>_.
     then_do (response_json body) (\<lambda>data.
     then_do (subscript_key data ''choices'') (\<lambda>choices.
     then_do (subscript_zero choices) (\<lambda>first.
     then_do (subscript_key first ''message'') (\<lambda>message.
     then_do (get_method message ''content'') (\<lambda>c.
     then_do (get_method message ''reasoning_details'') (\<lambda>r.
       Inr \<lparr>response_content = c, reasoning_details = r\<rparr>)))))))"

text \<open>The whole \<^verbatim>\<open>try\<close> block: the request, then the reading of the response.\<close>

definition try_block :: "network \<Rightarrow> http_request \<Rightarrow> exn + model_response" where
  "try_block net req =
     (case net req of
        PostRaises e \<Rightarrow> Inl e
      | PostResponds code body \<Rightarrow> read_response code body)"

text \<open>
  The two \<^verbatim>\<open>except\<close> clauses. The first takes \<open>HTTPStatusError\<close>, the second every
  other subclass of \<^verbatim>\<open>Exception\<close>; an exception that neither takes would propagate.
\<close>

fun is_Exception :: "exn \<Rightarrow> bool" where
  "is_Exception e = True"

definition except_clauses ::
  "string \<Rightarrow> string \<Rightarrow> exn \<Rightarrow> effect list \<times> (exn + model_response option)" where
  "except_clauses k model e =
     (case e of
        HTTPStatusError code \<Rightarrow>
          (if code = 401
           then ([Print (DiagUnauthorized model (take 20 k) (length k) e)], Inr None)
           else ([Print (DiagHttpStatus model code e)], Inr None))
      | _ \<Rightarrow>
          (if is_Exception e then ([Print (DiagError model e)], Inr None)
           else ([], Inl e)))"

definition build_request :: "string \<Rightarrow> string \<Rightarrow> chat_message list \<Rightarrow> http_request" where
  "build_request k model messages =
     \<lparr>url = OPENROUTER_API_URL,
      headers = [(''Authorization'', ''Bearer '' @ k), (''Content-Type'', ''application/json'')],
      payload_model = model,
      payload_messages = messages\<rparr>"

text \<open>
  \<^verbatim>\<open>query_model(model, messages)\<close>: the effects it performs, in order, and what it
  hands to its caller: \<open>Inr\<close> a returned value (\<open>None\<close> or the response dictionary),
  \<open>Inl\<close> an exception that left the function. The timeout keeps its default in every
  call of the repository; a request that exceeds it is the outcome
  \<open>PostRaises TimeoutException\<close>.
\<close>

definition query_model ::
  "string option \<Rightarrow> network \<Rightarrow> string \<Rightarrow> chat_message list
     \<Rightarrow> effect list \<times> (exn + model_response option)" where
  "query_model api_key net model messages =
     (if key_not_set api_key then ([Print (DiagKeyNotSet model)], Inr None)
      else if api_key = Some PLACEHOLDER_KEY then ([Print (DiagKeyPlaceholder model)], Inr None)
      else
        (let k = the api_key;
             req = build_request k model messages
         in case try_block net req of
              Inr r \<Rightarrow> ([HttpPost req], Inr (Some r))
            | Inl e \<Rightarrow>
                (let (out, res) = except_clauses k model e
                 in (HttpPost req # out, res))))"

section \<open>The parallel fan-out: \<^verbatim>\<open>query_models_parallel\<close>\<close>

text \<open>
  \<^verbatim>\<open>asyncio.gather(*tasks)\<close> without \<^verbatim>\<open>return_exceptions\<close>: the results of all
  tasks in the order of the tasks, or the exception of a task that raised.
\<close>

fun gather :: "(exn + 'a) list \<Rightarrow> exn + 'a list" where
  "gather [] = Inr []"
| "gather (Inl e # ts) = Inl e"
| "gather (Inr x # ts) = (case gather ts of Inl e \<Rightarrow> Inl e | Inr xs \<Rightarrow> Inr (x # xs))"

text \<open>
  A dictionary comprehension over a list of items: each item is stored in turn, so a
  later item replaces an earlier one with the same key.
\<close>

definition dict_of :: "('k \<times> 'v) list \<Rightarrow> ('k \<rightharpoonup> 'v)" where
  "dict_of items = fold (\<lambda>(k, v) d. d(k \<mapsto> v)) items Map.empty"

text \<open>
  \<^verbatim>\<open>query_models_parallel(models, messages)\<close>. The value of an entry is \<open>None\<close> for a
  failed call, so a model that failed is a key of the dictionary all the same:
  \<open>d m = Some None\<close>, against \<open>d m = None\<close> for a model that is no key.
\<close>

definition query_models_parallel ::
  "string option \<Rightarrow> network \<Rightarrow> string list \<Rightarrow> chat_message list
     \<Rightarrow> exn + (string \<rightharpoonup> model_response option)" where
  "query_models_parallel api_key net models messages =
     (let tasks = map (\<lambda>model. snd (query_model api_key net model messages)) models
      in case gather tasks of
           Inl e \<Rightarrow> Inl e
         | Inr responses \<Rightarrow> Inr (dict_of (zip models responses)))"


section \<open>The API handlers of \<^verbatim>\<open>main.py\<close>\<close>

text \<open>A stored conversation, with the fields of the \<^verbatim>\<open>Conversation\<close> model.\<close>

record conversation =
  conv_id :: string
  conv_created_at :: string
  conv_title :: string
  conv_messages :: "json list"

text \<open>
  The handlers call into the modules \<^verbatim>\<open>storage\<close> and \<^verbatim>\<open>council\<close>. What each of these
  calls does, to return a value or to raise, is given by the environment: one field for
  each function called, of the type the handler uses it at. No handler makes the same call
  twice, so a function of the arguments covers every behaviour of a collaborator with
  state. The payloads of the stages are JSON data. \<open>uuid4\<close> is the identifier drawn by
  \<^verbatim>\<open>uuid.uuid4()\<close>, and \<open>str_of\<close> is \<^verbatim>\<open>str(e)\<close>.
\<close>

record collaborators =
  storage_list_conversations :: "exn + json"
  storage_create_conversation :: "string \<Rightarrow> exn + conversation"
  storage_get_conversation :: "string \<Rightarrow> exn + conversation option"
  storage_add_user_message :: "string \<Rightarrow> string \<Rightarrow> exn + unit"
  storage_update_conversation_title :: "string \<Rightarrow> string \<Rightarrow> exn + unit"
  storage_add_assistant_message :: "string \<Rightarrow> json \<Rightarrow> json \<Rightarrow> json \<Rightarrow> exn + unit"
  council_generate_conversation_title :: "string \<Rightarrow> exn + string"
  council_run_full_council :: "string \<Rightarrow> exn + (json \<times> json \<times> json \<times> json)"
  council_stage1_collect_responses :: "string \<Rightarrow> exn + json"
  council_stage2_collect_rankings :: "string \<Rightarrow> json \<Rightarrow> exn + (json \<times> json)"
  council_calculate_aggregate_rankings :: "json \<Rightarrow> json \<Rightarrow> exn + json"
  council_stage3_synthesize_final :: "string \<Rightarrow> json \<Rightarrow> json \<Rightarrow> exn + json"
  uuid4 :: string
  str_of :: "exn \<Rightarrow> string"

text \<open>The calls a handler makes, with their arguments.\<close>

datatype call =
    Uuid4
  | ListConversations
  | CreateConversation string
  | GetConversation string
  | AddUserMessage string string
  | UpdateConversationTitle string string
  | AddAssistantMessage string json json json
  | GenerateConversationTitle string
  | RunFullCouncil string
  | Stage1CollectResponses string
  | Stage2CollectRankings string json
  | CalculateAggregateRankings json json
  | Stage3SynthesizeFinal string json json

text \<open>The events of the stream, one constructor per \<^verbatim>\<open>type\<close> of event and its payload.\<close>

datatype event =
    Stage1Start
  | Stage1Complete json
  | Stage2Start
  | Stage2Complete json json json
  | Stage3Start
  | Stage3Complete json
  | TitleComplete string
  | Complete
  | Error string

text \<open>
  What a handler does, in program order. \<open>Call c\<close>: the call is made and the handler waits
  for it to finish, before its next step. \<open>TaskCreated c\<close>: the call is started as a task of
  its own (\<^verbatim>\<open>asyncio.create_task\<close>) and the handler goes on without waiting.
  \<open>TaskAwaited c\<close>: the handler waits for that task to finish. \<open>Yielded ev\<close>: the event is
  handed to the stream.
\<close>

datatype step =
    Call call
  | TaskCreated call
  | TaskAwaited call
  | Yielded event

text \<open>A run: the steps made, and the value returned or the exception raised.\<close>

type_synonym 'a run = "step list \<times> (exn + 'a)"

definition and_then :: "'a run \<Rightarrow> ('a \<Rightarrow> 'b run) \<Rightarrow> 'b run" where
  "and_then m f =
     (case m of
        (t, Inl e) \<Rightarrow> (t, Inl e)
      | (t, Inr x) \<Rightarrow> (case f x of (t', r) \<Rightarrow> (t @ t', r)))"

definition return_value :: "'a \<Rightarrow> 'a run" where
  "return_value x = ([], Inr x)"

definition raise_exn :: "exn \<Rightarrow> 'a run" where
  "raise_exn e = ([], Inl e)"

definition perform :: "call \<Rightarrow> exn + 'a \<Rightarrow> 'a run" where
  "perform c outcome = ([Call c], outcome)"

definition create_task :: "call \<Rightarrow> unit run" where
  "create_task c = ([TaskCreated c], Inr ())"

definition await_task :: "call \<Rightarrow> exn + 'a \<Rightarrow> 'a run" where
  "await_task c outcome = ([TaskAwaited c], outcome)"

definition yield :: "event \<Rightarrow> unit run" where
  "yield ev = ([Yielded ev], Inr ())"

subsection \<open>The versioned handlers\<close>

definition list_conversations_v1 :: "collaborators \<Rightarrow> json run" where
  "list_conversations_v1 env = perform ListConversations (storage_list_conversations env)"

definition create_conversation_v1 :: "collaborators \<Rightarrow> conversation run" where
  "create_conversation_v1 env =
     and_then (perform Uuid4 (Inr (uuid4 env))) (\<lambda>conversation_id.
     perform (CreateConversation conversation_id)
       (storage_create_conversation env conversation_id))"

definition not_found :: exn where
  "not_found = HTTPException 404 ''Conversation not found''"

definition get_conversation_v1 :: "collaborators \<Rightarrow> string \<Rightarrow> conversation run" where
  "get_conversation_v1 env conversation_id =
     and_then (perform (GetConversation conversation_id)
                 (storage_get_conversation env conversation_id)) (\<lambda>found.
     case found of
       None \<Rightarrow> raise_exn not_found
     | Some conversation \<Rightarrow> return_value conversation)"

text \<open>
  \<^verbatim>\<open>send_message_v1\<close>: on the first message the title is generated and stored, then the
  council runs, then the assistant message is stored.
\<close>

definition send_message_v1 :: "collaborators \<Rightarrow> string \<Rightarrow> string \<Rightarrow> json run" where
  "send_message_v1 env conversation_id content =
     and_then (perform (GetConversation conversation_id)
                 (storage_get_conversation env conversation_id)) (\<lambda>found.
     case found of
       None \<Rightarrow> raise_exn not_found
     | Some conversation \<Rightarrow>
         (let is_first_message = (length (conv_messages conversation) = 0) in
          and_then (perform (AddUserMessage conversation_id content)
                      (storage_add_user_message env conversation_id content)) (\<lambda>_.
          and_then
            (if is_first_message then
               and_then (perform (GenerateConversationTitle content)
                           (council_generate_conversation_title env content)) (\<lambda>title.
               perform (UpdateConversationTitle conversation_id title)
                 (storage_update_conversation_title env conversation_id title))
             else return_value ()) (\<lambda>_.
          and_then (perform (RunFullCouncil content)
                      (council_run_full_council env content))
            (\<lambda>(stage1_results, stage2_results, stage3_result, metadata).
          and_then (perform (AddAssistantMessage conversation_id
                               stage1_results stage2_results stage3_result)
                      (storage_add_assistant_message env conversation_id
                         stage1_results stage2_results stage3_result)) (\<lambda>_.
          return_value
            (JObj [(''stage1'', stage1_results), (''stage2'', stage2_results),
                   (''stage3'', stage3_result), (''metadata'', metadata)])))))))"

text \<open>
  The body of the \<^verbatim>\<open>try\<close> block of \<^verbatim>\<open>event_generator\<close>. \<open>is_first_message\<close> decides
  whether the title task is created, and \<^verbatim>\<open>title_task\<close> is set exactly then.
\<close>

definition deliberation :: "collaborators \<Rightarrow> string \<Rightarrow> string \<Rightarrow> bool \<Rightarrow> unit run" where
  "deliberation env conversation_id content is_first_message =
     and_then (perform (AddUserMessage conversation_id content)
                 (storage_add_user_message env conversation_id content)) (\<lambda>_.
     and_then (if is_first_message then create_task (GenerateConversationTitle content)
               else return_value ()) (\<lambda>_.
     and_then (yield Stage1Start) (\<lambda>_.
     and_then (perform (Stage1CollectResponses content)
                 (council_stage1_collect_responses env content)) (\<lambda>stage1_results.
     and_then (yield (Stage1Complete stage1_results)) (\<lambda>_.
     and_then (yield Stage2Start) (\<lambda>_.
     and_then (perform (Stage2CollectRankings content stage1_results)
                 (council_stage2_collect_rankings env content stage1_results))
       (\<lambda>(stage2_results, label_to_model).
     and_then (perform (CalculateAggregateRankings stage2_results label_to_model)
                 (council_calculate_aggregate_rankings env stage2_results label_to_model))
       (\<lambda>aggregate_rankings.
     and_then (yield (Stage2Complete stage2_results label_to_model aggregate_rankings)) (\<lambda>_.
     and_then (yield Stage3Start) (\<lambda>_.
     and_then (perform (Stage3SynthesizeFinal content stage1_results stage2_results)
                 (council_stage3_synthesize_final env content stage1_results stage2_results))
       (\<lambda>stage3_result.
     and_then (yield (Stage3Complete stage3_result)) (\<lambda>_.
     and_then
       (if is_first_message then
          and_then (await_task (GenerateConversationTitle content)
                      (council_generate_conversation_title env content)) (\<lambda>title.
          and_then (perform (UpdateConversationTitle conversation_id title)
                      (storage_update_conversation_title env conversation_id title)) (\<lambda>_.
          yield (TitleComplete title)))
        else return_value ()) (\<lambda>_.
     and_then (perform (AddAssistantMessage conversation_id
                          stage1_results stage2_results stage3_result)
                 (storage_add_assistant_message env conversation_id
                    stage1_results stage2_results stage3_result)) (\<lambda>_.
     yield Complete))))))))))))))"

text \<open>
  \<^verbatim>\<open>event_generator\<close>, run to its end: the steps of the body, and the error event when
  the body raised.
\<close>

definition event_generator :: "collaborators \<Rightarrow> string \<Rightarrow> string \<Rightarrow> bool \<Rightarrow> step list" where
  "event_generator env conversation_id content is_first_message =
     (case deliberation env conversation_id content is_first_message of
        (t, Inr _) \<Rightarrow> t
      | (t, Inl e) \<Rightarrow> t @ [Yielded (Error (str_of env e))])"

text \<open>
  \<^verbatim>\<open>send_message_stream_v1\<close>: the conversation is looked up before the stream starts; the
  steps of the generator follow as the response is sent.
\<close>

definition send_message_stream_v1 :: "collaborators \<Rightarrow> string \<Rightarrow> string \<Rightarrow> unit run" where
  "send_message_stream_v1 env conversation_id content =
     and_then (perform (GetConversation conversation_id)
                 (storage_get_conversation env conversation_id)) (\<lambda>found.
     case found of
       None \<Rightarrow> raise_exn not_found
     | Some conversation \<Rightarrow>
         (let is_first_message = (length (conv_messages conversation) = 0) in
          (event_generator env conversation_id content is_first_message, Inr ())))"

subsection \<open>The legacy handlers\<close>

definition list_conversations :: "collaborators \<Rightarrow> json run" where
  "list_conversations env = list_conversations_v1 env"

definition create_conversation :: "collaborators \<Rightarrow> conversation run" where
  "create_conversation env = create_conversation_v1 env"

definition get_conversation :: "collaborators \<Rightarrow> string \<Rightarrow> conversation run" where
  "get_conversation env conversation_id = get_conversation_v1 env conversation_id"

definition send_message :: "collaborators \<Rightarrow> string \<Rightarrow> string \<Rightarrow> json run" where
  "send_message env conversation_id content = send_message_v1 env conversation_id content"

definition send_message_stream :: "collaborators \<Rightarrow> string \<Rightarrow> string \<Rightarrow> unit run" where
  "send_message_stream env conversation_id content =
     send_message_stream_v1 env conversation_id content"

subsection \<open>The authentication middleware\<close>

text \<open>
  \<^verbatim>\<open>authenticate_api_key\<close>, in front of every handler. \<open>auth_enabled\<close> and \<open>api_keys\<close> are
  \<^verbatim>\<open>config.API_AUTH_ENABLED\<close> and \<^verbatim>\<open>config.API_KEYS\<close>; \<open>api_key\<close> is the header
  \<^verbatim>\<open>X-API-Key\<close> of the request, \<open>call_next\<close> what the handler of the route answers.
  \<open>Inl\<close> is the response with status 401 and its detail.
\<close>

definition authenticate_api_key ::
  "bool \<Rightarrow> string list \<Rightarrow> string \<Rightarrow> string option \<Rightarrow> 'a \<Rightarrow> (nat \<times> string) + 'a" where
  "authenticate_api_key auth_enabled api_keys path api_key call_next =
     (if path \<in> set [''/'', ''/health'', ''/api/v1/status''] then Inr call_next
      else if \<not> auth_enabled then Inr call_next
      else if (case api_key of None \<Rightarrow> True | Some k \<Rightarrow> k = []) then
        Inl (401, ''API key required. Include X-API-Key header.'')
      else if the api_key \<notin> set api_keys then Inl (401, ''Invalid API key'')
      else Inr call_next)"

text \<open>The events of a run, in the order they were yielded, and the terminal ones.\<close>

fun events_of :: "step list \<Rightarrow> event list" where
  "events_of [] = []"
| "events_of (Yielded ev # t) = ev # events_of t"
| "events_of (_ # t) = events_of t"

fun is_terminal :: "event \<Rightarrow> bool" where
  "is_terminal Complete = True"
| "is_terminal (Error message) = True"
| "is_terminal _ = False"

text \<open>
  The steps that belong to a stage, by name: the two events of the stage and, between
  them, the call that runs it.
\<close>

fun stage_marks :: "step list \<Rightarrow> string list" where
  "stage_marks [] = []"
| "stage_marks (Yielded Stage1Start # t) = ''stage1_start'' # stage_marks t"
| "stage_marks (Call (Stage1CollectResponses q) # t) = ''stage1_collect_responses'' # stage_marks t"
| "stage_marks (Yielded (Stage1Complete d) # t) = ''stage1_complete'' # stage_marks t"
| "stage_marks (Yielded Stage2Start # t) = ''stage2_start'' # stage_marks t"
| "stage_marks (Call (Stage2CollectRankings q s1) # t) = ''stage2_collect_rankings'' # stage_marks t"
| "stage_marks (Yielded (Stage2Complete d l a) # t) = ''stage2_complete'' # stage_marks t"
| "stage_marks (Yielded Stage3Start # t) = ''stage3_start'' # stage_marks t"
| "stage_marks (Call (Stage3SynthesizeFinal q s1 s2) # t) = ''stage3_synthesize_final'' # stage_marks t"
| "stage_marks (Yielded (Stage3Complete d) # t) = ''stage3_complete'' # stage_marks t"
| "stage_marks (_ # t) = stage_marks t"

definition stage_order :: "string list" where
  "stage_order =
     [''stage1_start'', ''stage1_collect_responses'', ''stage1_complete'',
      ''stage2_start'', ''stage2_collect_rankings'', ''stage2_complete'',
      ''stage3_start'', ''stage3_synthesize_final'', ''stage3_complete'']"

text \<open>\<open>precedes a b t\<close>: \<open>a\<close> occurs in \<open>t\<close>, and \<open>b\<close> occurs after its first occurrence.\<close>

fun precedes :: "'a \<Rightarrow> 'a \<Rightarrow> 'a list \<Rightarrow> bool" where
  "precedes a b [] = False"
| "precedes a b (x # xs) = (if x = a then b \<in> set xs else precedes a b xs)"

text \<open>
  The name of a step: how the step is made (a call awaited in line, a task created, a task
  awaited, an event yielded) and the function called or the \<^verbatim>\<open>type\<close> of the event.
\<close>

fun call_name :: "call \<Rightarrow> string" where
  "call_name Uuid4 = ''uuid4''"
| "call_name ListConversations = ''list_conversations''"
| "call_name (CreateConversation i) = ''create_conversation''"
| "call_name (GetConversation i) = ''get_conversation''"
| "call_name (AddUserMessage i c) = ''add_user_message''"
| "call_name (UpdateConversationTitle i t) = ''update_conversation_title''"
| "call_name (AddAssistantMessage i s1 s2 s3) = ''add_assistant_message''"
| "call_name (GenerateConversationTitle c) = ''generate_conversation_title''"
| "call_name (RunFullCouncil c) = ''run_full_council''"
| "call_name (Stage1CollectResponses c) = ''stage1_collect_responses''"
| "call_name (Stage2CollectRankings c s1) = ''stage2_collect_rankings''"
| "call_name (CalculateAggregateRankings s2 l) = ''calculate_aggregate_rankings''"
| "call_name (Stage3SynthesizeFinal c s1 s2) = ''stage3_synthesize_final''"

fun event_type :: "event \<Rightarrow> string" where
  "event_type Stage1Start = ''stage1_start''"
| "event_type (Stage1Complete d) = ''stage1_complete''"
| "event_type Stage2Start = ''stage2_start''"
| "event_type (Stage2Complete d l a) = ''stage2_complete''"
| "event_type Stage3Start = ''stage3_start''"
| "event_type (Stage3Complete d) = ''stage3_complete''"
| "event_type (TitleComplete t) = ''title_complete''"
| "event_type Complete = ''complete''"
| "event_type (Error m) = ''error''"

fun step_name :: "step \<Rightarrow> string" where
  "step_name (Call c) = ''call '' @ call_name c"
| "step_name (TaskCreated c) = ''create_task '' @ call_name c"
| "step_name (TaskAwaited c) = ''await_task '' @ call_name c"
| "step_name (Yielded ev) = ''yield '' @ event_type ev"

text \<open>
  The steps of the \<^verbatim>\<open>try\<close> block of \<^verbatim>\<open>event_generator\<close> by name, in the order of the
  program text, when nothing raises.
\<close>

definition stream_order :: "bool \<Rightarrow> string list" where
  "stream_order is_first_message =
     [''call add_user_message'']
     @ (if is_first_message then [''create_task generate_conversation_title''] else [])
     @ [''yield stage1_start'', ''call stage1_collect_responses'', ''yield stage1_complete'',
        ''yield stage2_start'', ''call stage2_collect_rankings'',
        ''call calculate_aggregate_rankings'', ''yield stage2_complete'',
        ''yield stage3_start'', ''call stage3_synthesize_final'', ''yield stage3_complete'']
     @ (if is_first_message
        then [''await_task generate_conversation_title'', ''call update_conversation_title'',
              ''yield title_complete'']
        else [])
     @ [''call add_assistant_message'', ''yield complete'']"

text \<open>
  \<open>only_after b a t\<close>: \<open>b\<close> does not occur in \<open>t\<close> before the first occurrence of \<open>a\<close>, and
  not at all when \<open>a\<close> does not occur.
\<close>

definition only_after :: "'a \<Rightarrow> 'a \<Rightarrow> 'a list \<Rightarrow> bool" where
  "only_after b a t = (b \<notin> set (takeWhile (\<lambda>x. x \<noteq> a) t))"


section \<open>Rank aggregation\<close>

text \<open>
  Modelled from the spec: the ranking submission of one council model. The module
  \<^verbatim>\<open>council\<close>, which holds the parsing of a ranking and \<^verbatim>\<open>calculate_aggregate_rankings\<close>,
  is not among the sources. A submission is the sequence of the labels it ranks, best
  first; it may hold fewer labels than there are, and \<open>None\<close> is a submission that could
  not be parsed.
\<close>

type_synonym ranking_submission = "string list option"

record aggregate_entry =
  modelIdentifier :: string
  score :: nat
  rank :: nat

text \<open>
  Modelled from the spec: the points one submission gives to one model, on the scale
  \<open>points(rank) = N - rank\<close>, with \<open>N\<close> the number of items the submission ranks and the
  rank counted from 0, so that the label ranked best gets the most points. A label
  counts for the model that \<open>label_to_model\<close> gives for it; a submission that could not be
  parsed gives nothing.
\<close>

definition submission_points ::
  "(string \<times> string) list \<Rightarrow> ranking_submission \<Rightarrow> string \<Rightarrow> nat" where
  "submission_points label_to_model submission model =
     (case submission of
        None \<Rightarrow> 0
      | Some labels \<Rightarrow>
          sum_list (map (\<lambda>(r, label).
                      if map_of label_to_model label = Some model then length labels - r else 0)
                    (enumerate 0 labels)))"

text \<open>
  Modelled from the spec: the points of a model, summed over all submissions of the
  stage-2 bundle (ranker and submission).
\<close>

definition total_score ::
  "(string \<times> ranking_submission) list \<Rightarrow> (string \<times> string) list \<Rightarrow> string \<Rightarrow> nat" where
  "total_score stage2_results label_to_model model =
     sum_list (map (\<lambda>(ranker, submission). submission_points label_to_model submission model)
               stage2_results)"

text \<open>
  Modelled from the spec: \<^verbatim>\<open>calculate_aggregate_rankings(stage2_results, label_to_model)\<close>,
  the aggregate ranking over the models that have a label: sorted by total score, the
  highest first, ties broken by the lexical order of the model identifiers; the rank of an
  entry is its place in that order, from 1.
\<close>

definition calculate_aggregate_rankings ::
  "(string \<times> ranking_submission) list \<Rightarrow> (string \<times> string) list \<Rightarrow> aggregate_entry list" where
  "calculate_aggregate_rankings stage2_results label_to_model =
     (let models = remdups (map snd label_to_model);
          ordered = sort_key (\<lambda>m. (- int (total_score stage2_results label_to_model m), m)) models
      in map (\<lambda>(i, m). \<lparr>modelIdentifier = m,
                          score = total_score stage2_results label_to_model m,
                          rank = Suc i\<rparr>)
             (enumerate 0 ordered))"


section \<open>The inside of stages 1 and 2\<close>

text \<open>
  Modelled from the spec: the entry of a bundle for one council model. The module
  \<^verbatim>\<open>council\<close>, which holds the stages, is not among the sources; the bundles of the spec
  (section 3) are mappings from model identifier to response, with one entry for each
  configured council model, a failed one included.
\<close>

definition bundle_entry :: "model_response option \<Rightarrow> json" where
  "bundle_entry r =
     (case r of
        None \<Rightarrow> JNull
      | Some m \<Rightarrow> JObj [(''content'', response_content m),
                        (''reasoning_details'', reasoning_details m)])"

text \<open>
  Modelled from the spec: a bundle as JSON data, the entry of each council model under
  its identifier, in the order of the configured list.
\<close>

definition bundle_json :: "string list \<Rightarrow> (string \<rightharpoonup> model_response option) \<Rightarrow> json" where
  "bundle_json council_models d =
     JObj (map (\<lambda>model. (model, bundle_entry (case d model of None \<Rightarrow> None | Some r \<Rightarrow> r)))
           council_models)"

text \<open>
  Modelled from the spec: the chat message that carries the text of the user (section 3,
  a message with the role of the user).
\<close>

definition user_message :: "string \<Rightarrow> chat_message" where
  "user_message user_text = \<lparr>msg_role = ''user'', msg_content = user_text\<rparr>"

text \<open>
  Modelled from the spec: stage 1 (section 4.4, item 1): the user message is fanned out to
  every configured council model with \<open>query_models_parallel\<close>, and the result is the
  bundle. When every council model failed the stage raises (section 7, StageError).
\<close>

definition stage1_fan_out ::
  "string option \<Rightarrow> network \<Rightarrow> string list \<Rightarrow> string \<Rightarrow> exn + json" where
  "stage1_fan_out api_key net council_models user_query =
     (case query_models_parallel api_key net council_models [user_message user_query] of
        Inl e \<Rightarrow> Inl e
      | Inr d \<Rightarrow>
          (if list_all (\<lambda>model. d model = Some None) council_models
           then Inl (OtherException ''StageError: all models failed to respond'')
           else Inr (bundle_json council_models d)))"

text \<open>
  Modelled from the spec: stage 2 (section 4.4, item 2): a ranking request is built from
  the question and the stage-1 bundle and fanned out to the same council models; the
  result is the bundle of their answers and the mapping from label to model. The text of
  the request (\<open>ranking_prompt\<close>) and the assignment of labels (\<open>label_to_model\<close>) are left
  open by the spec and are parameters.
\<close>

definition stage2_fan_out ::
  "string option \<Rightarrow> network \<Rightarrow> string list \<Rightarrow> (string \<Rightarrow> json \<Rightarrow> chat_message list)
     \<Rightarrow> (json \<Rightarrow> json) \<Rightarrow> string \<Rightarrow> json \<Rightarrow> exn + (json \<times> json)" where
  "stage2_fan_out api_key net council_models ranking_prompt label_to_model user_query
       stage1_results =
     (case query_models_parallel api_key net council_models
             (ranking_prompt user_query stage1_results) of
        Inl e \<Rightarrow> Inl e
      | Inr d \<Rightarrow> Inr (bundle_json council_models d, label_to_model stage1_results))"

text \<open>
  Modelled from the spec: collaborators whose stages 1 and 2 are these fan-outs; every
  other call is as the given environment has it.
\<close>

definition with_fan_out ::
  "collaborators \<Rightarrow> string option \<Rightarrow> network \<Rightarrow> string list
     \<Rightarrow> (string \<Rightarrow> json \<Rightarrow> chat_message list) \<Rightarrow> (json \<Rightarrow> json) \<Rightarrow> collaborators" where
  "with_fan_out env api_key net council_models ranking_prompt label_to_model =
     env\<lparr>council_stage1_collect_responses := stage1_fan_out api_key net council_models,
         council_stage2_collect_rankings :=
           stage2_fan_out api_key net council_models ranking_prompt label_to_model\<rparr>"


section \<open>Concrete inputs\<close>

definition good_body :: json where
  "good_body =
     JObj [(''choices'',
            JArr [JObj [(''message'', JObj [(''content'', JStr ''forty-two'')])]])]"

definition good_response :: model_response where
  "good_response = \<lparr>response_content = JStr ''forty-two'', reasoning_details = JNull\<rparr>"

definition net_unauthorized :: network where
  "net_unauthorized req = PostResponds 401 None"

definition net_server_error :: network where
  "net_server_error req = PostResponds 500 None"

definition net_one_down :: network where
  "net_one_down req =
     (if payload_model req = ''x-ai/grok-4'' then PostRaises ConnectError
      else PostResponds 200 (Some good_body))"

definition live_key :: "string option" where
  "live_key = Some ''sk-or-v1-0123456789abcdef''"

definition two_models :: "string list" where
  "two_models = [''openai/gpt-5.1'', ''x-ai/grok-4'']"

definition new_conversation :: conversation where
  "new_conversation =
     \<lparr>conv_id = ''c1'', conv_created_at = ''2025-01-01T00:00:00'',
      conv_title = ''New Conversation'', conv_messages = []\<rparr>"

definition message_of :: "exn \<Rightarrow> string" where
  "message_of e = (case e of OtherException m \<Rightarrow> m | _ \<Rightarrow> ''error'')"

definition env_ok :: collaborators where
  "env_ok =
     \<lparr>storage_list_conversations = Inr (JArr []),
      storage_create_conversation = (\<lambda>i. Inr (new_conversation\<lparr>conv_id := i\<rparr>)),
      storage_get_conversation = (\<lambda>i. Inr (if i = ''c1'' then Some new_conversation else None)),
      storage_add_user_message = (\<lambda>i c. Inr ()),
      storage_update_conversation_title = (\<lambda>i t. Inr ()),
      storage_add_assistant_message = (\<lambda>i s1 s2 s3. Inr ()),
      council_generate_conversation_title = (\<lambda>c. Inr ''A question''),
      council_run_full_council =
        (\<lambda>c. Inr (JStr ''answers'', JStr ''rankings'', JStr ''final'', JStr ''metadata'')),
      council_stage1_collect_responses = (\<lambda>c. Inr (JStr ''answers'')),
      council_stage2_collect_rankings = (\<lambda>c s1. Inr (JStr ''rankings'', JStr ''labels'')),
      council_calculate_aggregate_rankings = (\<lambda>s2 l. Inr (JStr ''aggregate'')),
      council_stage3_synthesize_final = (\<lambda>c s1 s2. Inr (JStr ''final'')),
      uuid4 = ''c1'',
      str_of = message_of\<rparr>"

definition env_stage2_fails :: collaborators where
  "env_stage2_fails =
     env_ok\<lparr>council_stage2_collect_rankings :=
              (\<lambda>c s1. Inl (OtherException ''All models failed to respond''))\<rparr>"

definition three_labels :: "(string \<times> string) list" where
  "three_labels =
     [(''Response A'', ''openai/gpt-5.1''), (''Response B'', ''google/gemini-3-pro-preview''),
      (''Response C'', ''x-ai/grok-4'')]"

definition mixed_submissions :: "(string \<times> ranking_submission) list" where
  "mixed_submissions =
     [(''openai/gpt-5.1'', Some [''Response B'', ''Response A'', ''Response C'']),
      (''google/gemini-3-pro-preview'', None),
      (''x-ai/grok-4'', Some [''Response B''])]"

definition demo_prompt :: "string \<Rightarrow> json \<Rightarrow> chat_message list" where
  "demo_prompt user_query stage1_results = [user_message (''Rank the responses to: '' @ user_query)]"

definition demo_labels :: "json \<Rightarrow> json" where
  "demo_labels stage1_results = JObj [(''Response A'', JStr ''openai/gpt-5.1'')]"

definition env_fan_out :: collaborators where
  "env_fan_out = with_fan_out env_ok live_key net_one_down two_models demo_prompt demo_labels"

section \<open>Properties of the gateway\<close>

lemmas gateway_eval =
  query_model_def key_not_set_def PLACEHOLDER_KEY_def build_request_def try_block_def
  read_response_def then_do_def raise_for_status_def response_json_def except_clauses_def
  live_key_def good_body_def good_response_def

lemma query_model_returns:
  "\<exists>v. snd (query_model api_key net model messages) = Inr v"
  by (cases "try_block net (build_request (the api_key) model messages)")
     (auto simp: query_model_def except_clauses_def Let_def split: exn.splits)

lemma query_model_projr:
  "snd (query_model api_key net model messages) =
     Inr (projr (snd (query_model api_key net model messages)))"
  using query_model_returns [of api_key net model messages] by auto

lemma query_model_one_down:
  "snd (query_model live_key net_one_down ''x-ai/grok-4'' []) = Inr None"
  by (simp add: gateway_eval net_one_down_def)

lemma query_model_one_up:
  "snd (query_model live_key net_one_down ''openai/gpt-5.1'' []) = Inr (Some good_response)"
  by (simp add: gateway_eval net_one_down_def)

lemma except_clauses_None: "snd (except_clauses k model e) = Inr None"
  by (cases e) (simp_all add: except_clauses_def)

lemma query_model_failure_value:
  assumes "key_not_set api_key \<or> api_key = Some PLACEHOLDER_KEY
           \<or> try_block net (build_request (the api_key) model messages) = Inl e"
  shows "snd (query_model api_key net model messages) = Inr None"
  using assms except_clauses_None [of "the api_key" model e]
  by (auto simp: query_model_def Let_def split: prod.splits)

text \<open>
  C2. For every API key, every behaviour of the network, every model identifier and every
  message list, \<^verbatim>\<open>query_model\<close> hands a value to its caller: no exception leaves it,
  whether the request raises (a transport error, a timeout), the status is an error
  status, or the body is not of the expected shape.
\<close>

theorem query_model_never_raises:
  "\<exists>v. snd (query_model api_key net model messages) = Inr v"
proof (cases "try_block net (build_request (the api_key) model messages)")
  case (Inl e)
  then have "snd (query_model api_key net model messages) = Inr None"
    using query_model_failure_value [of api_key net model messages e] by simp
  then show ?thesis by blast
next
  case (Inr r)
  then show ?thesis
    by (simp add: query_model_def Let_def)
qed

text \<open>
  C3, as stated, fails: the value returned for a response with status 401 and the value
  returned for a response with status 500 are the same \<^verbatim>\<open>None\<close>, which carries no kind
  of error.
\<close>

theorem unauthorized_same_value_as_server_error:
  "snd (query_model live_key net_unauthorized ''openai/gpt-5.1'' []) = Inr None
   \<and> snd (query_model live_key net_server_error ''openai/gpt-5.1'' []) = Inr None"
  by (simp add: gateway_eval net_unauthorized_def net_server_error_def)

text \<open>
  C3, amended. Whenever a call fails (the key is not set, the key is the placeholder, or
  the \<^verbatim>\<open>try\<close> block raises) the value returned is \<^verbatim>\<open>None\<close>, whatever the failure
  was. An authentication failure shows in the diagnostic alone: the line for status 401
  is printed exactly when the \<^verbatim>\<open>try\<close> block was entered and raised the status error
  with code 401.
\<close>

theorem query_model_failure_is_None:
  "(key_not_set api_key \<or> api_key = Some PLACEHOLDER_KEY
      \<or> try_block net (build_request (the api_key) model messages) = Inl e
    \<longrightarrow> snd (query_model api_key net model messages) = Inr None)
   \<and> (Print (DiagUnauthorized model (take 20 (the api_key)) (length (the api_key))
               (HTTPStatusError 401))
         \<in> set (fst (query_model api_key net model messages))
       \<longleftrightarrow> \<not> key_not_set api_key \<and> api_key \<noteq> Some PLACEHOLDER_KEY
           \<and> try_block net (build_request (the api_key) model messages)
               = Inl (HTTPStatusError 401))"
proof (intro conjI impI)
  assume "key_not_set api_key \<or> api_key = Some PLACEHOLDER_KEY
      \<or> try_block net (build_request (the api_key) model messages) = Inl e"
  then show "snd (query_model api_key net model messages) = Inr None"
    by (rule query_model_failure_value)
next
  show "Print (DiagUnauthorized model (take 20 (the api_key)) (length (the api_key))
               (HTTPStatusError 401))
         \<in> set (fst (query_model api_key net model messages))
       \<longleftrightarrow> \<not> key_not_set api_key \<and> api_key \<noteq> Some PLACEHOLDER_KEY
           \<and> try_block net (build_request (the api_key) model messages)
               = Inl (HTTPStatusError 401)"
    by (cases "try_block net (build_request (the api_key) model messages)")
       (auto simp: query_model_def except_clauses_def Let_def split: exn.splits)
qed

theorem query_model_failure_is_None_witness:
  "try_block net_unauthorized (build_request (the live_key) ''openai/gpt-5.1'' [])
     = Inl (HTTPStatusError 401)
   \<and> snd (query_model live_key net_unauthorized ''openai/gpt-5.1'' []) = Inr None
   \<and> Print (DiagUnauthorized ''openai/gpt-5.1'' ''sk-or-v1-0123456789a'' 25
              (HTTPStatusError 401))
       \<in> set (fst (query_model live_key net_unauthorized ''openai/gpt-5.1'' []))"
proof -
  have h: "try_block net_unauthorized (build_request (the live_key) ''openai/gpt-5.1'' [])
     = Inl (HTTPStatusError 401)"
    by (simp add: gateway_eval net_unauthorized_def)
  have k: "\<not> key_not_set live_key \<and> live_key \<noteq> Some PLACEHOLDER_KEY"
    by (simp add: gateway_eval)
  have t: "take 20 (the live_key) = ''sk-or-v1-0123456789a'' \<and> length (the live_key) = 25"
    by (simp add: live_key_def)
  show ?thesis
    using h k t
      query_model_failure_is_None [of live_key net_unauthorized "''openai/gpt-5.1''" "[]"
        "HTTPStatusError 401"]
    by simp
qed

text \<open>
  C10. When the configured key is unset (\<^verbatim>\<open>None\<close> or empty) or still equals the
  placeholder, \<^verbatim>\<open>query_model\<close> returns \<^verbatim>\<open>None\<close> and performs no request: its only
  effect is one diagnostic line, whatever the network would have answered.
\<close>

theorem query_model_bad_key_no_request:
  assumes "key_not_set api_key \<or> api_key = Some PLACEHOLDER_KEY"
  shows "snd (query_model api_key net model messages) = Inr None
         \<and> (\<forall>req. HttpPost req \<notin> set (fst (query_model api_key net model messages)))
         \<and> fst (query_model api_key net model messages)
             = [Print (if key_not_set api_key then DiagKeyNotSet model
                       else DiagKeyPlaceholder model)]"
  using assms by (auto simp: query_model_def)

theorem query_model_bad_key_no_request_witness:
  "(key_not_set (Some PLACEHOLDER_KEY) \<or> Some PLACEHOLDER_KEY = Some PLACEHOLDER_KEY)
   \<and> query_model (Some PLACEHOLDER_KEY) net_one_down ''openai/gpt-5.1'' []
       = ([Print (DiagKeyPlaceholder ''openai/gpt-5.1'')], Inr None)
   \<and> (key_not_set None \<or> None = Some PLACEHOLDER_KEY)
   \<and> query_model None net_one_down ''openai/gpt-5.1'' []
       = ([Print (DiagKeyNotSet ''openai/gpt-5.1'')], Inr None)"
proof -
  have p: "\<not> key_not_set (Some PLACEHOLDER_KEY)"
    by (simp add: key_not_set_def PLACEHOLDER_KEY_def)
  have n: "key_not_set None"
    by (simp add: key_not_set_def)
  show ?thesis
    using p n
      query_model_bad_key_no_request [of "Some PLACEHOLDER_KEY" net_one_down "''openai/gpt-5.1''" "[]"]
      query_model_bad_key_no_request [of None net_one_down "''openai/gpt-5.1''" "[]"]
    by (simp add: prod_eq_iff)
qed

section \<open>Properties of the fan-out\<close>

lemma gather_all_Inr: "gather (map (\<lambda>x. Inr (f x)) xs) = Inr (map f xs)"
  by (induction xs) auto

lemma fold_update_zip_map:
  "fold (\<lambda>(k, v) d. d(k \<mapsto> v)) (zip ks (map f ks)) d0 =
     (\<lambda>k. if k \<in> set ks then Some (f k) else d0 k)"
  by (induction ks arbitrary: d0) (auto simp: fun_eq_iff)

lemma dict_of_zip_map:
  "dict_of (zip ks (map f ks)) = (\<lambda>k. if k \<in> set ks then Some (f k) else None)"
  by (simp add: dict_of_def fold_update_zip_map)

lemma query_models_parallel_eq:
  "query_models_parallel api_key net models messages =
     Inr (\<lambda>m. if m \<in> set models
              then Some (projr (snd (query_model api_key net m messages))) else None)"
proof -
  have "map (\<lambda>m. snd (query_model api_key net m messages)) models =
        map (\<lambda>m. Inr (projr (snd (query_model api_key net m messages)))) models"
    using query_model_projr by (intro map_cong) auto
  then have "gather (map (\<lambda>m. snd (query_model api_key net m messages)) models) =
        Inr (map (\<lambda>m. projr (snd (query_model api_key net m messages))) models)"
    by (simp only: gather_all_Inr)
  then show ?thesis
    by (simp add: query_models_parallel_def dict_of_zip_map)
qed

text \<open>
  C1. For every non-empty list of distinct model identifiers and every message list, the
  fan-out returns a dictionary (it does not raise) whose keys are exactly the requested
  models, one entry for each, and the entry of a model is what the gateway call for that
  model returned, whether it failed or not.
\<close>

theorem fan_out_complete:
  assumes "models \<noteq> []" and "distinct models"
  shows "\<exists>d. query_models_parallel api_key net models messages = Inr d
           \<and> dom d = set models
           \<and> card (dom d) = length models
           \<and> (\<forall>m \<in> set models.
                 \<exists>r. d m = Some r \<and> snd (query_model api_key net m messages) = Inr r)"
proof -
  let ?d = "\<lambda>m. if m \<in> set models
              then Some (projr (snd (query_model api_key net m messages))) else None"
  have "dom ?d = set models" by (auto simp: dom_def)
  moreover have "card (set models) = length models"
    using assms(2) by (rule distinct_card)
  moreover have "\<forall>m \<in> set models.
      \<exists>r. ?d m = Some r \<and> snd (query_model api_key net m messages) = Inr r"
    using query_model_projr by auto
  ultimately show ?thesis
    using query_models_parallel_eq [of api_key net models messages] by simp
qed

theorem fan_out_complete_witness:
  "two_models \<noteq> [] \<and> distinct two_models
   \<and> (\<exists>d. query_models_parallel live_key net_one_down two_models [] = Inr d
          \<and> dom d = {''openai/gpt-5.1'', ''x-ai/grok-4''}
          \<and> card (dom d) = 2
          \<and> d ''openai/gpt-5.1'' = Some (Some good_response)
          \<and> d ''x-ai/grok-4'' = Some None)"
proof -
  have h: "two_models \<noteq> []" "distinct two_models"
    by (simp_all add: two_models_def)
  from fan_out_complete [OF h, of live_key net_one_down "[]"]
  obtain d where d: "query_models_parallel live_key net_one_down two_models [] = Inr d"
    "dom d = set two_models" "card (dom d) = length two_models"
    "\<forall>m \<in> set two_models.
       \<exists>r. d m = Some r \<and> snd (query_model live_key net_one_down m []) = Inr r"
    by blast
  from d(4) have "d ''openai/gpt-5.1'' = Some (Some good_response)"
    "d ''x-ai/grok-4'' = Some None"
    using query_model_one_up query_model_one_down by (auto simp: two_models_def)
  with d h show ?thesis
    by (auto simp: two_models_def)
qed

text \<open>
  C4. In a fan-out over distinct models, when the call for one model fails and the call
  for another model succeeds, the dictionary returned holds the successful response under
  its model (and the failure, as \<^verbatim>\<open>None\<close>, under the failed one): the failure takes
  nothing away from the result.
\<close>

theorem fan_out_isolation:
  assumes "distinct models" and "failed \<in> set models" and "ok \<in> set models"
    and "snd (query_model api_key net failed messages) = Inr None"
    and "snd (query_model api_key net ok messages) = Inr (Some r)"
  shows "\<exists>d. query_models_parallel api_key net models messages = Inr d
           \<and> d ok = Some (Some r) \<and> d failed = Some None"
  using assms query_models_parallel_eq [of api_key net models messages] by simp

theorem fan_out_isolation_witness:
  "distinct two_models \<and> ''x-ai/grok-4'' \<in> set two_models
   \<and> ''openai/gpt-5.1'' \<in> set two_models
   \<and> snd (query_model live_key net_one_down ''x-ai/grok-4'' []) = Inr None
   \<and> snd (query_model live_key net_one_down ''openai/gpt-5.1'' []) = Inr (Some good_response)
   \<and> (\<exists>d. query_models_parallel live_key net_one_down two_models [] = Inr d
          \<and> d ''openai/gpt-5.1'' = Some (Some good_response)
          \<and> d ''x-ai/grok-4'' = Some None)"
proof -
  have h: "distinct two_models" "''x-ai/grok-4'' \<in> set two_models"
    "''openai/gpt-5.1'' \<in> set two_models"
    by (simp_all add: two_models_def)
  show ?thesis
    using h query_model_one_down query_model_one_up
      fan_out_isolation [OF h query_model_one_down query_model_one_up]
    by simp
qed

section \<open>Properties of the handlers\<close>

lemma fst_and_then:
  "fst (and_then m f) = fst m @ (case snd m of Inl e \<Rightarrow> [] | Inr x \<Rightarrow> fst (f x))"
  by (cases m; cases "snd m") (auto simp: and_then_def split: prod.splits)

lemma snd_and_then:
  "snd (and_then m f) = (case snd m of Inl e \<Rightarrow> Inl e | Inr x \<Rightarrow> snd (f x))"
  by (cases m; cases "snd m") (auto simp: and_then_def split: prod.splits)

lemma run_parts:
  "fst (perform c outcome) = [Call c]" "snd (perform c outcome) = outcome"
  "fst (await_task c outcome) = [TaskAwaited c]" "snd (await_task c outcome) = outcome"
  "fst (create_task c) = [TaskCreated c]" "snd (create_task c) = Inr ()"
  "fst (yield ev) = [Yielded ev]" "snd (yield ev) = Inr ()"
  "fst (return_value x) = []" "snd (return_value x) = Inr x"
  "fst (raise_exn e) = []" "snd (raise_exn e) = Inl e"
  by (simp_all add: perform_def await_task_def create_task_def yield_def return_value_def
      raise_exn_def)

lemma events_of_append: "events_of (t @ t') = events_of t @ events_of t'"
  by (induction t rule: events_of.induct) auto

lemma stage_marks_append: "stage_marks (t @ t') = stage_marks t @ stage_marks t'"
  by (induction t rule: stage_marks.induct) auto

lemmas run_simps = fst_and_then snd_and_then run_parts

lemma event_generator_parts:
  "event_generator env cid content first =
     fst (deliberation env cid content first) @
     (case snd (deliberation env cid content first) of
        Inl e \<Rightarrow> [Yielded (Error (str_of env e))] | Inr _ \<Rightarrow> [])"
  by (cases "deliberation env cid content first"; cases "snd (deliberation env cid content first)")
     (auto simp: event_generator_def)

lemma deliberation_terminal:
  "case snd (deliberation env cid content first) of
     Inl e \<Rightarrow> filter is_terminal (events_of (fst (deliberation env cid content first))) = []
   | Inr _ \<Rightarrow>
       events_of (fst (deliberation env cid content first)) \<noteq> []
       \<and> last (events_of (fst (deliberation env cid content first))) = Complete
       \<and> filter is_terminal (events_of (fst (deliberation env cid content first))) = [Complete]
       \<and> last (fst (deliberation env cid content first)) = Yielded Complete"
  unfolding deliberation_def
  by (simp add: run_simps events_of_append split: sum.splits prod.splits)

text \<open>
  C5. The events of one run of \<^verbatim>\<open>event_generator\<close>, whatever the collaborators do: the
  sequence is not empty, its last event is terminal (\<open>Complete\<close>, or \<open>Error\<close> with the text
  of the exception), that event is the only terminal one, and it is the last step of the
  run, so nothing follows it. When the body raises, the events yielded before the failure
  are all there, in their order, and the error event comes after them; when it does not,
  the last event is \<open>Complete\<close>.
\<close>

theorem stream_ends_with_one_terminal_event:
  "let body = deliberation env cid content first;
       t = event_generator env cid content first;
       evs = events_of t
   in evs \<noteq> [] \<and> is_terminal (last evs) \<and> filter is_terminal evs = [last evs]
      \<and> last t = Yielded (last evs)
      \<and> (case snd body of
            Inr _ \<Rightarrow> last evs = Complete \<and> evs = events_of (fst body)
          | Inl e \<Rightarrow>
              last evs = Error (str_of env e)
              \<and> evs = events_of (fst body) @ [Error (str_of env e)])"
  using deliberation_terminal [of env cid content first]
  by (cases "snd (deliberation env cid content first)")
     (simp_all add: event_generator_parts events_of_append Let_def)

theorem stream_ends_with_one_terminal_event_witness:
  "events_of (event_generator env_stage2_fails ''c1'' ''Why?'' True) =
     [Stage1Start, Stage1Complete (JStr ''answers''), Stage2Start,
      Error ''All models failed to respond'']
   \<and> snd (deliberation env_stage2_fails ''c1'' ''Why?'' True)
       = Inl (OtherException ''All models failed to respond'')
   \<and> events_of (event_generator env_ok ''c1'' ''Why?'' True) =
     [Stage1Start, Stage1Complete (JStr ''answers''), Stage2Start,
      Stage2Complete (JStr ''rankings'') (JStr ''labels'') (JStr ''aggregate''),
      Stage3Start, Stage3Complete (JStr ''final''), TitleComplete ''A question'', Complete]"
  using stream_ends_with_one_terminal_event [of env_stage2_fails "''c1''" "''Why?''" True]
    stream_ends_with_one_terminal_event [of env_ok "''c1''" "''Why?''" True]
  by (simp add: event_generator_parts deliberation_def run_simps env_stage2_fails_def
      env_ok_def message_of_def)


lemma send_message_v1_trace_ok:
  "fst (send_message_v1 env_ok ''c1'' ''Why?'') =
     [Call (GetConversation ''c1''), Call (AddUserMessage ''c1'' ''Why?''),
      Call (GenerateConversationTitle ''Why?''),
      Call (UpdateConversationTitle ''c1'' ''A question''),
      Call (RunFullCouncil ''Why?''),
      Call (AddAssistantMessage ''c1'' (JStr ''answers'') (JStr ''rankings'') (JStr ''final''))]"
  by (simp add: send_message_v1_def run_simps env_ok_def new_conversation_def)

lemma event_generator_trace_ok:
  "event_generator env_ok ''c1'' ''Why?'' True =
     [Call (AddUserMessage ''c1'' ''Why?''), TaskCreated (GenerateConversationTitle ''Why?''),
      Yielded Stage1Start, Call (Stage1CollectResponses ''Why?''),
      Yielded (Stage1Complete (JStr ''answers'')),
      Yielded Stage2Start, Call (Stage2CollectRankings ''Why?'' (JStr ''answers'')),
      Call (CalculateAggregateRankings (JStr ''rankings'') (JStr ''labels'')),
      Yielded (Stage2Complete (JStr ''rankings'') (JStr ''labels'') (JStr ''aggregate'')),
      Yielded Stage3Start,
      Call (Stage3SynthesizeFinal ''Why?'' (JStr ''answers'') (JStr ''rankings'')),
      Yielded (Stage3Complete (JStr ''final'')),
      TaskAwaited (GenerateConversationTitle ''Why?''),
      Call (UpdateConversationTitle ''c1'' ''A question''),
      Yielded (TitleComplete ''A question''),
      Call (AddAssistantMessage ''c1'' (JStr ''answers'') (JStr ''rankings'') (JStr ''final'')),
      Yielded Complete]"
  by (simp add: event_generator_parts deliberation_def run_simps env_ok_def)

lemma stream_steps_prefix:
  "prefix (map step_name (fst (deliberation env cid content first))) (stream_order first)"
  unfolding deliberation_def stream_order_def
  by (simp add: run_simps split: sum.splits prod.splits)

lemma stream_steps_all:
  "Yielded Complete \<in> set (event_generator env cid content first) \<longrightarrow>
     map step_name (event_generator env cid content first) = stream_order first"
  unfolding event_generator_parts deliberation_def stream_order_def
  by (simp add: run_simps split: sum.splits prod.splits)

lemma stream_steps_error:
  "event_generator env cid content first = fst (deliberation env cid content first)
   \<or> (\<exists>e. event_generator env cid content first =
             fst (deliberation env cid content first) @ [Yielded (Error (str_of env e))])"
  by (cases "snd (deliberation env cid content first)") (auto simp: event_generator_parts)

lemma stage_marks_prefix:
  "prefix (stage_marks (event_generator env cid content first)) stage_order"
  unfolding event_generator_parts deliberation_def stage_order_def
  by (simp add: run_simps stage_marks_append split: sum.splits prod.splits)

lemma stage_marks_all:
  "Yielded Complete \<in> set (event_generator env cid content first) \<longrightarrow>
     stage_marks (event_generator env cid content first) = stage_order"
  unfolding event_generator_parts deliberation_def stage_order_def
  by (simp add: run_simps stage_marks_append split: sum.splits prod.splits)

lemma only_task_is_the_title:
  "\<forall>c. TaskCreated c \<in> set (event_generator env cid content first)
        \<or> TaskAwaited c \<in> set (event_generator env cid content first) \<longrightarrow>
        c = GenerateConversationTitle content \<and> first"
  unfolding event_generator_parts deliberation_def
  by (auto simp: run_simps split: sum.splits prod.splits if_splits)

lemma stage2_after_stage1:
  "\<forall>q s1. Call (Stage2CollectRankings q s1) \<in> set (event_generator env cid content first) \<longrightarrow>
      q = content \<and> council_stage1_collect_responses env content = Inr s1
      \<and> only_after (Call (Stage2CollectRankings q s1)) (Yielded (Stage1Complete s1))
          (event_generator env cid content first)"
  unfolding event_generator_parts deliberation_def only_after_def
  by (simp add: run_simps split: sum.splits prod.splits)

lemma stage3_after_stage2:
  "\<forall>q s1 s2. Call (Stage3SynthesizeFinal q s1 s2)
                 \<in> set (event_generator env cid content first) \<longrightarrow>
      q = content \<and> council_stage1_collect_responses env content = Inr s1
      \<and> (\<exists>l a. council_stage2_collect_rankings env content s1 = Inr (s2, l)
                \<and> only_after (Call (Stage3SynthesizeFinal q s1 s2))
                     (Yielded (Stage2Complete s2 l a)) (event_generator env cid content first))"
  unfolding event_generator_parts deliberation_def only_after_def
  by (simp add: run_simps split: sum.splits prod.splits)

lemma fan_out_complete_mapping:
  assumes "query_models_parallel api_key net models msgs = Inr d"
  shows "dom d = set models
         \<and> (\<forall>m \<in> set models. \<exists>r. d m = Some r \<and> snd (query_model api_key net m msgs) = Inr r)"
proof -
  have "d = (\<lambda>m. if m \<in> set models
              then Some (projr (snd (query_model api_key net m msgs))) else None)"
    using assms query_models_parallel_eq [of api_key net models msgs] by simp
  then show ?thesis
    using query_model_projr by (auto simp: dom_def)
qed

lemma stage1_fan_out_result:
  assumes "stage1_fan_out api_key net models q = Inr s1"
  shows "\<exists>d. query_models_parallel api_key net models [user_message q] = Inr d
             \<and> dom d = set models
             \<and> (\<forall>m \<in> set models. \<exists>r. d m = Some r
                    \<and> snd (query_model api_key net m [user_message q]) = Inr r)
             \<and> s1 = bundle_json models d"
proof (cases "query_models_parallel api_key net models [user_message q]")
  case (Inl e)
  with assms show ?thesis by (simp add: stage1_fan_out_def)
next
  case (Inr d)
  with assms have "s1 = bundle_json models d"
    by (simp add: stage1_fan_out_def split: if_splits)
  with Inr fan_out_complete_mapping [OF Inr] show ?thesis by blast
qed

lemma stage2_fan_out_result:
  assumes "stage2_fan_out api_key net models prompt labels q s1 = Inr (s2, l)"
  shows "\<exists>d. query_models_parallel api_key net models (prompt q s1) = Inr d
             \<and> dom d = set models
             \<and> (\<forall>m \<in> set models. \<exists>r. d m = Some r
                    \<and> snd (query_model api_key net m (prompt q s1)) = Inr r)
             \<and> s2 = bundle_json models d"
proof (cases "query_models_parallel api_key net models (prompt q s1)")
  case (Inl e)
  with assms show ?thesis by (simp add: stage2_fan_out_def)
next
  case (Inr d)
  with assms have "s2 = bundle_json models d"
    by (simp add: stage2_fan_out_def)
  with Inr fan_out_complete_mapping [OF Inr] show ?thesis by blast
qed

lemma stage2_after_every_member:
  "\<forall>q s1. Call (Stage2CollectRankings q s1)
             \<in> set (event_generator (with_fan_out env api_key net models prompt labels)
                      cid content first) \<longrightarrow>
      (\<exists>d. query_models_parallel api_key net models [user_message content] = Inr d
           \<and> dom d = set models
           \<and> (\<forall>m \<in> set models. \<exists>r. d m = Some r
                  \<and> snd (query_model api_key net m [user_message content]) = Inr r)
           \<and> s1 = bundle_json models d)"
proof (intro allI impI)
  fix q s1
  assume "Call (Stage2CollectRankings q s1)
             \<in> set (event_generator (with_fan_out env api_key net models prompt labels)
                      cid content first)"
  then have "council_stage1_collect_responses
               (with_fan_out env api_key net models prompt labels) content = Inr s1"
    using stage2_after_stage1 by blast
  then have "stage1_fan_out api_key net models content = Inr s1"
    by (simp add: with_fan_out_def)
  then show "\<exists>d. query_models_parallel api_key net models [user_message content] = Inr d
           \<and> dom d = set models
           \<and> (\<forall>m \<in> set models. \<exists>r. d m = Some r
                  \<and> snd (query_model api_key net m [user_message content]) = Inr r)
           \<and> s1 = bundle_json models d"
    by (rule stage1_fan_out_result)
qed

lemma stage3_after_every_member:
  "\<forall>q s1 s2. Call (Stage3SynthesizeFinal q s1 s2)
             \<in> set (event_generator (with_fan_out env api_key net models prompt labels)
                      cid content first) \<longrightarrow>
      (\<exists>d. query_models_parallel api_key net models (prompt content s1) = Inr d
           \<and> dom d = set models
           \<and> (\<forall>m \<in> set models. \<exists>r. d m = Some r
                  \<and> snd (query_model api_key net m (prompt content s1)) = Inr r)
           \<and> s2 = bundle_json models d)"
proof (intro allI impI)
  fix q s1 s2
  assume "Call (Stage3SynthesizeFinal q s1 s2)
             \<in> set (event_generator (with_fan_out env api_key net models prompt labels)
                      cid content first)"
  then obtain l where "council_stage2_collect_rankings
               (with_fan_out env api_key net models prompt labels) content s1 = Inr (s2, l)"
    using stage3_after_stage2 by blast
  then have "stage2_fan_out api_key net models prompt labels content s1 = Inr (s2, l)"
    by (simp add: with_fan_out_def)
  then show "\<exists>d. query_models_parallel api_key net models (prompt content s1) = Inr d
           \<and> dom d = set models
           \<and> (\<forall>m \<in> set models. \<exists>r. d m = Some r
                  \<and> snd (query_model api_key net m (prompt content s1)) = Inr r)
           \<and> s2 = bundle_json models d"
    by (rule stage2_fan_out_result)
qed

lemma stream_order_distinct: "distinct (stream_order first)"
  by (simp add: stream_order_def)

lemma stage1_fan_out_demo:
  "stage1_fan_out live_key net_one_down two_models ''Why?'' =
     Inr (JObj [(''openai/gpt-5.1'',
                 JObj [(''content'', JStr ''forty-two''), (''reasoning_details'', JNull)]),
                (''x-ai/grok-4'', JNull)])"
  by (simp add: stage1_fan_out_def query_models_parallel_def two_models_def dict_of_def
      bundle_json_def bundle_entry_def user_message_def gateway_eval net_one_down_def)

text \<open>
  C6. In every run of \<^verbatim>\<open>event_generator\<close>, whatever the collaborators do, the steps of
  the \<^verbatim>\<open>try\<close> block are, by name, an initial part of the one sequence \<open>stream_order\<close>, in
  which no name occurs twice, and the whole of it when the run reaches \<open>Complete\<close>; the
  run adds at most the error event. So every stage is a call that is awaited in line
  between its start event and its completion event, the start event of a stage comes
  after the completion event of the stage before it, and no two stages overlap: the only
  task ever created or awaited is the title generation, on a first message. Stage 2 is
  called only with the result that the call of stage 1 returned, and not before the
  completion event of stage 1 with that result; stage 3 only with the results that stage
  1 and stage 2 returned, and not before the completion event of stage 2. When stages 1
  and 2 are the fan-outs of the spec, the value stage 2 is called with is the bundle of a
  fan-out that has returned: it holds, for every council model, what the gateway call of
  that model returned; and the same holds of the stage-2 bundle that stage 3 is called
  with.
\<close>

theorem stages_in_strict_order:
  "prefix (map step_name (fst (deliberation env cid content first))) (stream_order first)
   \<and> (event_generator env cid content first = fst (deliberation env cid content first)
       \<or> (\<exists>e. event_generator env cid content first =
                 fst (deliberation env cid content first) @ [Yielded (Error (str_of env e))]))
   \<and> (Yielded Complete \<in> set (event_generator env cid content first) \<longrightarrow>
         map step_name (event_generator env cid content first) = stream_order first)
   \<and> distinct (stream_order first)
   \<and> prefix (stage_marks (event_generator env cid content first)) stage_order
   \<and> (Yielded Complete \<in> set (event_generator env cid content first) \<longrightarrow>
         stage_marks (event_generator env cid content first) = stage_order)
   \<and> (\<forall>c. TaskCreated c \<in> set (event_generator env cid content first)
            \<or> TaskAwaited c \<in> set (event_generator env cid content first) \<longrightarrow>
            c = GenerateConversationTitle content \<and> first)
   \<and> (\<forall>q s1. Call (Stage2CollectRankings q s1) \<in> set (event_generator env cid content first) \<longrightarrow>
          q = content \<and> council_stage1_collect_responses env content = Inr s1
          \<and> only_after (Call (Stage2CollectRankings q s1)) (Yielded (Stage1Complete s1))
              (event_generator env cid content first))
   \<and> (\<forall>q s1 s2. Call (Stage3SynthesizeFinal q s1 s2)
                     \<in> set (event_generator env cid content first) \<longrightarrow>
          q = content \<and> council_stage1_collect_responses env content = Inr s1
          \<and> (\<exists>l a. council_stage2_collect_rankings env content s1 = Inr (s2, l)
                    \<and> only_after (Call (Stage3SynthesizeFinal q s1 s2))
                         (Yielded (Stage2Complete s2 l a)) (event_generator env cid content first)))
   \<and> (\<forall>q s1. Call (Stage2CollectRankings q s1)
                 \<in> set (event_generator (with_fan_out env api_key net models prompt labels)
                          cid content first) \<longrightarrow>
          (\<exists>d. query_models_parallel api_key net models [user_message content] = Inr d
               \<and> dom d = set models
               \<and> (\<forall>m \<in> set models. \<exists>r. d m = Some r
                      \<and> snd (query_model api_key net m [user_message content]) = Inr r)
               \<and> s1 = bundle_json models d))
   \<and> (\<forall>q s1 s2. Call (Stage3SynthesizeFinal q s1 s2)
                 \<in> set (event_generator (with_fan_out env api_key net models prompt labels)
                          cid content first) \<longrightarrow>
          (\<exists>d. query_models_parallel api_key net models (prompt content s1) = Inr d
               \<and> dom d = set models
               \<and> (\<forall>m \<in> set models. \<exists>r. d m = Some r
                      \<and> snd (query_model api_key net m (prompt content s1)) = Inr r)
               \<and> s2 = bundle_json models d))"
  by (intro conjI stream_steps_prefix stream_steps_error stream_steps_all
      stream_order_distinct stage_marks_prefix stage_marks_all only_task_is_the_title
      stage2_after_stage1 stage3_after_stage2 stage2_after_every_member
      stage3_after_every_member)

theorem stages_in_strict_order_witness:
  "Yielded Complete \<in> set (event_generator env_ok ''c1'' ''Why?'' True)
   \<and> map step_name (event_generator env_ok ''c1'' ''Why?'' True) = stream_order True
   \<and> stage_marks (event_generator env_ok ''c1'' ''Why?'' True) = stage_order
   \<and> TaskCreated (GenerateConversationTitle ''Why?'')
       \<in> set (event_generator env_ok ''c1'' ''Why?'' True)
   \<and> Call (Stage2CollectRankings ''Why?'' (JStr ''answers''))
       \<in> set (event_generator env_ok ''c1'' ''Why?'' True)
   \<and> only_after (Call (Stage2CollectRankings ''Why?'' (JStr ''answers'')))
        (Yielded (Stage1Complete (JStr ''answers'')))
        (event_generator env_ok ''c1'' ''Why?'' True)
   \<and> Call (Stage3SynthesizeFinal ''Why?'' (JStr ''answers'') (JStr ''rankings''))
       \<in> set (event_generator env_ok ''c1'' ''Why?'' True)
   \<and> council_stage2_collect_rankings env_ok ''Why?'' (JStr ''answers'')
       = Inr (JStr ''rankings'', JStr ''labels'')
   \<and> Call (Stage2CollectRankings ''Why?''
             (JObj [(''openai/gpt-5.1'',
                     JObj [(''content'', JStr ''forty-two''), (''reasoning_details'', JNull)]),
                    (''x-ai/grok-4'', JNull)]))
       \<in> set (event_generator env_fan_out ''c1'' ''Why?'' True)
   \<and> (\<exists>d. query_models_parallel live_key net_one_down two_models [user_message ''Why?'']
            = Inr d
          \<and> dom d = set two_models
          \<and> JObj [(''openai/gpt-5.1'',
                    JObj [(''content'', JStr ''forty-two''), (''reasoning_details'', JNull)]),
                   (''x-ai/grok-4'', JNull)] = bundle_json two_models d)"
proof -
  have t: "Yielded Complete \<in> set (event_generator env_ok ''c1'' ''Why?'' True)
   \<and> map step_name (event_generator env_ok ''c1'' ''Why?'' True) = stream_order True
   \<and> stage_marks (event_generator env_ok ''c1'' ''Why?'' True) = stage_order
   \<and> TaskCreated (GenerateConversationTitle ''Why?'')
       \<in> set (event_generator env_ok ''c1'' ''Why?'' True)
   \<and> Call (Stage2CollectRankings ''Why?'' (JStr ''answers''))
       \<in> set (event_generator env_ok ''c1'' ''Why?'' True)
   \<and> only_after (Call (Stage2CollectRankings ''Why?'' (JStr ''answers'')))
        (Yielded (Stage1Complete (JStr ''answers'')))
        (event_generator env_ok ''c1'' ''Why?'' True)
   \<and> Call (Stage3SynthesizeFinal ''Why?'' (JStr ''answers'') (JStr ''rankings''))
       \<in> set (event_generator env_ok ''c1'' ''Why?'' True)"
    by (simp add: event_generator_trace_ok stream_order_def stage_order_def only_after_def)
  have s: "council_stage2_collect_rankings env_ok ''Why?'' (JStr ''answers'')
       = Inr (JStr ''rankings'', JStr ''labels'')"
    by (simp add: env_ok_def)
  have m: "Call (Stage2CollectRankings ''Why?''
             (JObj [(''openai/gpt-5.1'',
                     JObj [(''content'', JStr ''forty-two''), (''reasoning_details'', JNull)]),
                    (''x-ai/grok-4'', JNull)]))
       \<in> set (event_generator env_fan_out ''c1'' ''Why?'' True)"
    by (simp add: event_generator_parts deliberation_def run_simps env_fan_out_def
        with_fan_out_def stage1_fan_out_demo env_ok_def)
  have "\<forall>q s1. Call (Stage2CollectRankings q s1)
                 \<in> set (event_generator env_fan_out ''c1'' ''Why?'' True) \<longrightarrow>
          (\<exists>d. query_models_parallel live_key net_one_down two_models [user_message ''Why?'']
                 = Inr d
               \<and> dom d = set two_models
               \<and> (\<forall>m \<in> set two_models. \<exists>r. d m = Some r
                      \<and> snd (query_model live_key net_one_down m [user_message ''Why?''])
                          = Inr r)
               \<and> s1 = bundle_json two_models d)"
    using stages_in_strict_order [where env = env_ok and cid = "''c1''" and content = "''Why?''"
        and first = True and api_key = live_key and net = net_one_down
        and models = two_models and prompt = demo_prompt and labels = demo_labels]
    unfolding env_fan_out_def by (elim conjE) assumption
  with m have "\<exists>d. query_models_parallel live_key net_one_down two_models [user_message ''Why?'']
            = Inr d
          \<and> dom d = set two_models
          \<and> JObj [(''openai/gpt-5.1'',
                    JObj [(''content'', JStr ''forty-two''), (''reasoning_details'', JNull)]),
                   (''x-ai/grok-4'', JNull)] = bundle_json two_models d"
    by blast
  with t s m show ?thesis by (intro conjI) (elim conjE, assumption)+
qed

text \<open>
  C7, as stated, fails for the endpoint that does not stream: on a first message
  \<^verbatim>\<open>send_message_v1\<close> waits for the title before the council starts, and starts no task.
\<close>

theorem title_blocks_council_when_not_streaming:
  "precedes (Call (GenerateConversationTitle ''Why?'')) (Call (RunFullCouncil ''Why?''))
     (fst (send_message_v1 env_ok ''c1'' ''Why?''))
   \<and> \<not> precedes (Call (RunFullCouncil ''Why?'')) (Call (GenerateConversationTitle ''Why?''))
     (fst (send_message_v1 env_ok ''c1'' ''Why?''))
   \<and> TaskCreated (GenerateConversationTitle ''Why?'')
       \<notin> set (fst (send_message_v1 env_ok ''c1'' ''Why?''))"
  by (simp add: send_message_v1_trace_ok)

text \<open>
  C7, amended. On the first message of a conversation (the stored conversation has no
  message yet) the streaming endpoint creates the title task right after the user message
  is stored, before stage 1 is called; it awaits the task only after the completion event
  of stage 3, then stores the title and yields the title event, and stores the assistant
  message after that. The endpoint that does not stream creates no task: it waits for the
  title in line and stores it, and only then runs the council. Both runs are given step
  by step, each stopping at the first call that raises.
\<close>

theorem title_task_of_the_stream:
  assumes "storage_get_conversation env cid = Inr (Some c)" and "conv_messages c = []"
  shows "send_message_stream_v1 env cid content =
           (Call (GetConversation cid) # event_generator env cid content True, Inr ())
   \<and> event_generator env cid content True =
     Call (AddUserMessage cid content) #
     (case storage_add_user_message env cid content of
        Inl e \<Rightarrow> [Yielded (Error (str_of env e))]
      | Inr _ \<Rightarrow>
     TaskCreated (GenerateConversationTitle content) #
     Yielded Stage1Start #
     Call (Stage1CollectResponses content) #
     (case council_stage1_collect_responses env content of
        Inl e \<Rightarrow> [Yielded (Error (str_of env e))]
      | Inr stage1_results \<Rightarrow>
     Yielded (Stage1Complete stage1_results) #
     Yielded Stage2Start #
     Call (Stage2CollectRankings content stage1_results) #
     (case council_stage2_collect_rankings env content stage1_results of
        Inl e \<Rightarrow> [Yielded (Error (str_of env e))]
      | Inr (stage2_results, label_to_model) \<Rightarrow>
     Call (CalculateAggregateRankings stage2_results label_to_model) #
     (case council_calculate_aggregate_rankings env stage2_results label_to_model of
        Inl e \<Rightarrow> [Yielded (Error (str_of env e))]
      | Inr aggregate_rankings \<Rightarrow>
     Yielded (Stage2Complete stage2_results label_to_model aggregate_rankings) #
     Yielded Stage3Start #
     Call (Stage3SynthesizeFinal content stage1_results stage2_results) #
     (case council_stage3_synthesize_final env content stage1_results stage2_results of
        Inl e \<Rightarrow> [Yielded (Error (str_of env e))]
      | Inr stage3_result \<Rightarrow>
     Yielded (Stage3Complete stage3_result) #
     TaskAwaited (GenerateConversationTitle content) #
     (case council_generate_conversation_title env content of
        Inl e \<Rightarrow> [Yielded (Error (str_of env e))]
      | Inr title \<Rightarrow>
     Call (UpdateConversationTitle cid title) #
     (case storage_update_conversation_title env cid title of
        Inl e \<Rightarrow> [Yielded (Error (str_of env e))]
      | Inr _ \<Rightarrow>
     Yielded (TitleComplete title) #
     Call (AddAssistantMessage cid stage1_results stage2_results stage3_result) #
     (case storage_add_assistant_message env cid stage1_results stage2_results stage3_result of
        Inl e \<Rightarrow> [Yielded (Error (str_of env e))]
      | Inr _ \<Rightarrow> [Yielded Complete]))))))))
   \<and> fst (send_message_v1 env cid content) =
     Call (GetConversation cid) #
     Call (AddUserMessage cid content) #
     (case storage_add_user_message env cid content of
        Inl e \<Rightarrow> []
      | Inr _ \<Rightarrow>
     Call (GenerateConversationTitle content) #
     (case council_generate_conversation_title env content of
        Inl e \<Rightarrow> []
      | Inr title \<Rightarrow>
     Call (UpdateConversationTitle cid title) #
     (case storage_update_conversation_title env cid title of
        Inl e \<Rightarrow> []
      | Inr _ \<Rightarrow>
     Call (RunFullCouncil content) #
     (case council_run_full_council env content of
        Inl e \<Rightarrow> []
      | Inr (stage1_results, stage2_results, stage3_result, metadata) \<Rightarrow>
     [Call (AddAssistantMessage cid stage1_results stage2_results stage3_result)]))))"
proof (intro conjI, goal_cases)
  case 1
  show ?case
    unfolding send_message_stream_v1_def using assms
    by (simp add: and_then_def perform_def)
next
  case 2
  show ?case
    unfolding event_generator_parts deliberation_def
    by (simp add: run_simps split: sum.splits prod.splits)
next
  case 3
  show ?case
    unfolding send_message_v1_def using assms
    by (simp add: run_simps split: sum.splits prod.splits)
qed

theorem title_task_of_the_stream_witness:
  "storage_get_conversation env_ok ''c1'' = Inr (Some new_conversation)
   \<and> conv_messages new_conversation = []
   \<and> fst (send_message_stream_v1 env_ok ''c1'' ''Why?'') =
     [Call (GetConversation ''c1''),
      Call (AddUserMessage ''c1'' ''Why?''), TaskCreated (GenerateConversationTitle ''Why?''),
      Yielded Stage1Start, Call (Stage1CollectResponses ''Why?''),
      Yielded (Stage1Complete (JStr ''answers'')),
      Yielded Stage2Start, Call (Stage2CollectRankings ''Why?'' (JStr ''answers'')),
      Call (CalculateAggregateRankings (JStr ''rankings'') (JStr ''labels'')),
      Yielded (Stage2Complete (JStr ''rankings'') (JStr ''labels'') (JStr ''aggregate'')),
      Yielded Stage3Start,
      Call (Stage3SynthesizeFinal ''Why?'' (JStr ''answers'') (JStr ''rankings'')),
      Yielded (Stage3Complete (JStr ''final'')),
      TaskAwaited (GenerateConversationTitle ''Why?''),
      Call (UpdateConversationTitle ''c1'' ''A question''),
      Yielded (TitleComplete ''A question''),
      Call (AddAssistantMessage ''c1'' (JStr ''answers'') (JStr ''rankings'') (JStr ''final'')),
      Yielded Complete]
   \<and> fst (send_message_v1 env_ok ''c1'' ''Why?'') =
     [Call (GetConversation ''c1''), Call (AddUserMessage ''c1'' ''Why?''),
      Call (GenerateConversationTitle ''Why?''),
      Call (UpdateConversationTitle ''c1'' ''A question''),
      Call (RunFullCouncil ''Why?''),
      Call (AddAssistantMessage ''c1'' (JStr ''answers'') (JStr ''rankings'') (JStr ''final''))]"
proof -
  have h: "storage_get_conversation env_ok ''c1'' = Inr (Some new_conversation)"
    "conv_messages new_conversation = []"
    by (simp_all add: env_ok_def new_conversation_def)
  show ?thesis
    using h title_task_of_the_stream [OF h, of "''Why?''"]
    by (simp add: env_ok_def)
qed

text \<open>
  C9. For each of the five routes, the legacy route and the versioned route give the same
  result for the same request and the same behaviour of the collaborators: the middleware
  treats the two paths alike, and the legacy handler is the versioned handler.
\<close>

theorem legacy_routes_alias_v1:
  "authenticate_api_key auth_enabled api_keys ''/api/conversations'' api_key
       (list_conversations env)
     = authenticate_api_key auth_enabled api_keys ''/api/v1/conversations'' api_key
         (list_conversations_v1 env)
   \<and> authenticate_api_key auth_enabled api_keys ''/api/conversations'' api_key
       (create_conversation env)
     = authenticate_api_key auth_enabled api_keys ''/api/v1/conversations'' api_key
         (create_conversation_v1 env)
   \<and> authenticate_api_key auth_enabled api_keys (''/api/conversations/'' @ cid) api_key
       (get_conversation env cid)
     = authenticate_api_key auth_enabled api_keys (''/api/v1/conversations/'' @ cid) api_key
         (get_conversation_v1 env cid)
   \<and> authenticate_api_key auth_enabled api_keys
       (''/api/conversations/'' @ cid @ ''/message'') api_key (send_message env cid content)
     = authenticate_api_key auth_enabled api_keys
         (''/api/v1/conversations/'' @ cid @ ''/message'') api_key
         (send_message_v1 env cid content)
   \<and> authenticate_api_key auth_enabled api_keys
       (''/api/conversations/'' @ cid @ ''/message/stream'') api_key
       (send_message_stream env cid content)
     = authenticate_api_key auth_enabled api_keys
         (''/api/v1/conversations/'' @ cid @ ''/message/stream'') api_key
         (send_message_stream_v1 env cid content)"
  by (simp add: authenticate_api_key_def list_conversations_def create_conversation_def
      get_conversation_def send_message_def send_message_stream_def)

theorem legacy_routes_alias_v1_witness:
  "authenticate_api_key True [''secret''] ''/api/conversations/c1'' (Some ''secret'')
       (get_conversation env_ok ''c1'')
     = Inr ([Call (GetConversation ''c1'')], Inr new_conversation)
   \<and> authenticate_api_key True [''secret''] ''/api/v1/conversations/c1'' (Some ''secret'')
       (get_conversation_v1 env_ok ''c1'')
     = Inr ([Call (GetConversation ''c1'')], Inr new_conversation)
   \<and> authenticate_api_key True [''secret''] ''/api/conversations/c1/message'' None
       (send_message env_ok ''c1'' ''Why?'')
     = Inl (401, ''API key required. Include X-API-Key header.'')
   \<and> authenticate_api_key True [''secret''] ''/api/v1/conversations/c1/message'' None
       (send_message_v1 env_ok ''c1'' ''Why?'')
     = Inl (401, ''API key required. Include X-API-Key header.'')"
  using legacy_routes_alias_v1 [where auth_enabled = True and api_keys = "[''secret'']"
      and api_key = "Some ''secret''" and env = env_ok and cid = "''c1''" and content = "''Why?''"]
    legacy_routes_alias_v1 [where auth_enabled = True and api_keys = "[''secret'']"
      and api_key = None and env = env_ok and cid = "''c1''" and content = "''Why?''"]
  by (simp add: authenticate_api_key_def get_conversation_v1_def and_then_def perform_def
      return_value_def env_ok_def)

section \<open>Properties of the aggregation\<close>

lemma total_score_parsed_only:
  "total_score (filter (\<lambda>(ranker, submission). submission \<noteq> None) stage2_results)
       label_to_model model
     = total_score stage2_results label_to_model model"
  by (induction stage2_results) (auto simp: total_score_def submission_points_def)

lemma submission_points_absent:
  assumes "\<forall>label \<in> set labels. map_of label_to_model label \<noteq> Some model"
  shows "submission_points label_to_model (Some labels) model = 0"
proof -
  have "\<forall>p \<in> set (enumerate 0 labels). map_of label_to_model (snd p) \<noteq> Some model"
    using assms by (auto simp: in_set_enumerate_eq)
  then show ?thesis
    by (auto simp: submission_points_def split: prod.splits)
qed

lemma aggregate_models:
  "map modelIdentifier (calculate_aggregate_rankings stage2_results label_to_model) =
     sort_key (\<lambda>m. (- int (total_score stage2_results label_to_model m), m))
       (remdups (map snd label_to_model))"
  by (simp add: calculate_aggregate_rankings_def Let_def map_idI comp_def case_prod_beta)

lemma aggregate_mixed:
  "calculate_aggregate_rankings mixed_submissions three_labels =
     [\<lparr>modelIdentifier = ''google/gemini-3-pro-preview'', score = 4, rank = 1\<rparr>,
      \<lparr>modelIdentifier = ''openai/gpt-5.1'', score = 2, rank = 2\<rparr>,
      \<lparr>modelIdentifier = ''x-ai/grok-4'', score = 1, rank = 3\<rparr>]"
  by code_simp

text \<open>
  C8. The aggregation is a total function of the submissions, so no submission makes it
  fail. A submission that could not be parsed gives no points to any model, and a
  submission gives no points to a model none of whose labels it holds. The aggregate
  ranking of a bundle is the one computed from its parsed submissions alone, and it has
  one entry for each model that has a label, whatever the submissions are.
\<close>

theorem aggregation_tolerance:
  "submission_points label_to_model None model = 0
   \<and> ((\<forall>label \<in> set labels. map_of label_to_model label \<noteq> Some model) \<longrightarrow>
        submission_points label_to_model (Some labels) model = 0)
   \<and> calculate_aggregate_rankings
        (filter (\<lambda>(ranker, submission). submission \<noteq> None) stage2_results) label_to_model
       = calculate_aggregate_rankings stage2_results label_to_model
   \<and> set (map modelIdentifier (calculate_aggregate_rankings stage2_results label_to_model))
       = snd ` set label_to_model
   \<and> length (calculate_aggregate_rankings stage2_results label_to_model)
       = card (snd ` set label_to_model)"
proof (intro conjI)
  show "submission_points label_to_model None model = 0"
    by (simp add: submission_points_def)
  show "(\<forall>label \<in> set labels. map_of label_to_model label \<noteq> Some model) \<longrightarrow>
        submission_points label_to_model (Some labels) model = 0"
    using submission_points_absent by blast
  show "calculate_aggregate_rankings
        (filter (\<lambda>(ranker, submission). submission \<noteq> None) stage2_results) label_to_model
       = calculate_aggregate_rankings stage2_results label_to_model"
    by (simp only: calculate_aggregate_rankings_def total_score_parsed_only)
  show "set (map modelIdentifier (calculate_aggregate_rankings stage2_results label_to_model))
       = snd ` set label_to_model"
    by (simp only: aggregate_models) simp
  have "length (calculate_aggregate_rankings stage2_results label_to_model)
     = length (map modelIdentifier (calculate_aggregate_rankings stage2_results label_to_model))"
    by simp
  also have "\<dots> = length (remdups (map snd label_to_model))"
    by (simp only: aggregate_models) simp
  also have "\<dots> = card (snd ` set label_to_model)"
    by (simp add: length_remdups_card_conv)
  finally show "length (calculate_aggregate_rankings stage2_results label_to_model)
       = card (snd ` set label_to_model)" .
qed

theorem aggregation_tolerance_witness:
  "map_of three_labels ''Response B'' \<noteq> Some ''x-ai/grok-4''
   \<and> submission_points three_labels (Some [''Response B'']) ''x-ai/grok-4'' = 0
   \<and> submission_points three_labels None ''x-ai/grok-4'' = 0
   \<and> calculate_aggregate_rankings
        [(''openai/gpt-5.1'', Some [''Response B'', ''Response A'', ''Response C'']),
         (''x-ai/grok-4'', Some [''Response B''])] three_labels
       = [\<lparr>modelIdentifier = ''google/gemini-3-pro-preview'', score = 4, rank = 1\<rparr>,
          \<lparr>modelIdentifier = ''openai/gpt-5.1'', score = 2, rank = 2\<rparr>,
          \<lparr>modelIdentifier = ''x-ai/grok-4'', score = 1, rank = 3\<rparr>]"
proof -
  have h: "\<forall>label \<in> set [''Response B'']. map_of three_labels label \<noteq> Some ''x-ai/grok-4''"
    by (simp add: three_labels_def)
  have f: "filter (\<lambda>(ranker, submission). submission \<noteq> None) mixed_submissions =
      [(''openai/gpt-5.1'', Some [''Response B'', ''Response A'', ''Response C'']),
       (''x-ai/grok-4'', Some [''Response B''])]"
    by (simp add: mixed_submissions_def)
  show ?thesis
    using h f aggregate_mixed
      aggregation_tolerance [of three_labels "''x-ai/grok-4''" "[''Response B'']"
        mixed_submissions]
    by (simp add: three_labels_def)
qed

end
